theory Spec2Isabelle
  imports Main "HOL-Library.Sublist"
begin

section \<open>nettest: the test-execution engine of \<^verbatim>\<open>nettest.go\<close>\<close>

text \<open>
  The development embeds \<^verbatim>\<open>runTests\<close>, \<^verbatim>\<open>testHTTPConnection\<close> and
  \<^verbatim>\<open>testTCPConnection\<close> of \<^verbatim>\<open>nettest.go\<close> together with the structs of the
  configuration file. Go strings are byte lists (\<open>string\<close>), Go's \<^verbatim>\<open>int\<close> fields are
  \<open>int\<close>, and the one place where the program multiplies (the conversion of a timeout in
  seconds to a \<^verbatim>\<open>time.Duration\<close>) wraps at 64 bits.

  Everything the program asks of the outside world (name resolution, the HTTP round trip,
  reading a response body, dialling, the clock) is answered by a record of oracles. Each
  oracle sees the list of network calls made so far, so the same call may be answered
  differently at different moments. The list of network calls is threaded through the
  functions and is the program's observable network activity. Progress output on the
  terminal is left out.
\<close>

subsection \<open>Data model\<close>

text \<open>The structs \<^verbatim>\<open>Configuration\<close>, \<^verbatim>\<open>TestConfig\<close> and \<^verbatim>\<open>ResponseDetails\<close>.\<close>

record Configuration =
  NetworkName :: string
  Host :: string
  Path :: string
  Port :: int
  Proto :: string
  Timeout :: int
  CaptureBody :: bool

record TestConfig =
  TestName :: string
  Email :: string
  Config :: "Configuration list"

record ResponseDetails =
  Request :: Configuration
  Success :: bool
  Status :: int
  FailureMessage :: string
  Body :: string
  Time :: string
  IPResolvedStatus :: string

text \<open>Go's zero values: \<^verbatim>\<open>Configuration{}\<close> and \<^verbatim>\<open>ResponseDetails{}\<close>.\<close>

definition zero_Configuration :: Configuration where
  "zero_Configuration =
     \<lparr>NetworkName = [], Host = [], Path = [], Port = 0, Proto = [], Timeout = 0,
      CaptureBody = False\<rparr>"

definition zero_ResponseDetails :: ResponseDetails where
  "zero_ResponseDetails =
     \<lparr>Request = zero_Configuration, Success = False, Status = 0, FailureMessage = [],
      Body = [], Time = [], IPResolvedStatus = []\<rparr>"

subsection \<open>The outside world\<close>

text \<open>
  A network call of the program: \<^verbatim>\<open>net.ResolveIPAddr(network, host)\<close>,
  \<^verbatim>\<open>client.Do(req)\<close> with the request's URL and the client's timeout in nanoseconds,
  \<^verbatim>\<open>ioutil.ReadAll(resp.Body)\<close>, the deferred \<^verbatim>\<open>resp.Body.Close()\<close>, and
  \<^verbatim>\<open>net.DialTimeout(network, address, timeout)\<close>.
\<close>

datatype net_call =
    ResolveIPAddr string string
  | ClientDo string int
  | ReadAll
  | BodyClose
  | DialTimeout string string int

text \<open>
  The platform the program runs on. \<open>timeout\<close> is the package variable set from the
  \<^verbatim>\<open>-timeout\<close> flag. \<open>newRequest url\<close> is the error text of
  \<^verbatim>\<open>http.NewRequest("GET", url, nil)\<close>, if it fails. \<open>resolveIPAddr\<close> returns Go's
  pair: the address (its text; \<open>None\<close> is the nil pointer) and the error text, if any.
  \<open>clientDo\<close> returns the error text or the status code of the response. \<open>readAll\<close>
  returns Go's pair: the bytes read and the error text, if any. \<open>dialTimeout\<close> returns
  the error text, if any. \<open>now\<close> is the reading of the monotonic clock in nanoseconds,
  \<open>durationString\<close> is \<^verbatim>\<open>time.Duration.String\<close>, \<open>joinHostPort\<close> is
  \<^verbatim>\<open>net.JoinHostPort\<close>, and \<open>unicodeToLower\<close> is what \<^verbatim>\<open>strings.ToLower\<close> does to a
  string that is not pure ASCII.
\<close>

record platform =
  timeout :: int
  newRequest :: "string \<Rightarrow> string option"
  resolveIPAddr :: "net_call list \<Rightarrow> string \<Rightarrow> string \<Rightarrow> string option \<times> string option"
  clientDo :: "net_call list \<Rightarrow> string \<Rightarrow> int \<Rightarrow> string + int"
  readAll :: "net_call list \<Rightarrow> string \<times> string option"
  dialTimeout :: "net_call list \<Rightarrow> string \<Rightarrow> string \<Rightarrow> int \<Rightarrow> string option"
  now :: "net_call list \<Rightarrow> int"
  durationString :: "int \<Rightarrow> string"
  joinHostPort :: "string \<Rightarrow> string \<Rightarrow> string"
  unicodeToLower :: "string \<Rightarrow> string"

subsection \<open>Library functions the program calls\<close>

text \<open>\<^verbatim>\<open>strings.HasPrefix\<close>.\<close>

definition HasPrefix :: "string \<Rightarrow> string \<Rightarrow> bool" where
  "HasPrefix s pre = (take (length pre) s = pre)"

text \<open>
  \<^verbatim>\<open>strings.ToLower\<close>: a string of ASCII bytes has its letters \<open>A\<close> to \<open>Z\<close> moved to
  \<open>a\<close> to \<open>z\<close>; any other string goes through the Unicode tables of the platform.
\<close>

definition isASCII :: "string \<Rightarrow> bool" where
  "isASCII s = list_all (\<lambda>c. (of_char c :: nat) < 128) s"

definition lowerByte :: "char \<Rightarrow> char" where
  "lowerByte c =
     (if 65 \<le> (of_char c :: nat) \<and> (of_char c :: nat) \<le> 90
      then char_of ((of_char c :: nat) + 32) else c)"

definition ToLower :: "platform \<Rightarrow> string \<Rightarrow> string" where
  "ToLower env s = (if isASCII s then map lowerByte s else unicodeToLower env s)"

text \<open>\<^verbatim>\<open>strconv.Itoa\<close>, which is also what the verb \<^verbatim>\<open>%d\<close> of \<^verbatim>\<open>fmt.Sprintf\<close> prints.\<close>

fun digits :: "nat \<Rightarrow> string" where
  "digits n =
     (if n < 10 then [''0123456789'' ! n]
      else digits (n div 10) @ [''0123456789'' ! (n mod 10)])"

definition Itoa :: "int \<Rightarrow> string" where
  "Itoa i = (if i < 0 then CHR ''-'' # digits (nat (- i)) else digits (nat i))"

text \<open>
  \<^verbatim>\<open>time.Duration(n) * time.Second\<close>: a multiplication of 64-bit signed integers, which
  wraps.
\<close>

definition int64 :: "int \<Rightarrow> int" where
  "int64 x = (x + 2 ^ 63) mod 2 ^ 64 - 2 ^ 63"

definition seconds :: "int \<Rightarrow> int" where
  "seconds n = int64 (n * 1000000000)"

text \<open>\<^verbatim>\<open>(*net.IPAddr).String\<close>, which accepts the nil pointer.\<close>

definition IPAddr_String :: "string option \<Rightarrow> string" where
  "IPAddr_String a = (case a of None \<Rightarrow> ''<nil>'' | Some s \<Rightarrow> s)"

subsection \<open>The probes\<close>

text \<open>
  Both probes start with \<^verbatim>\<open>if test.Timeout == 0 { test.Timeout = timeout }\<close>, on their
  own copy of the target (Go passes the struct by value).
\<close>

definition defaultTimeout :: "platform \<Rightarrow> Configuration \<Rightarrow> Configuration" where
  "defaultTimeout env test =
     (if Timeout test = 0 then test\<lparr>Timeout := timeout env\<rparr> else test)"

text \<open>
  \<^verbatim>\<open>if !strings.HasPrefix(test.Path, "/") { test.Path = "/" + test.Path }\<close>,
  again on the probe's copy.
\<close>

definition normalizePath :: "Configuration \<Rightarrow> Configuration" where
  "normalizePath test =
     (if \<not> HasPrefix (Path test) ''/'' then test\<lparr>Path := ''/'' @ Path test\<rparr> else test)"

text \<open>\<^verbatim>\<open>fmt.Sprintf("%s://%s:%d%s", test.Proto, test.Host, test.Port, test.Path)\<close>.\<close>

definition requestURL :: "Configuration \<Rightarrow> string" where
  "requestURL test = Proto test @ ''://'' @ Host test @ '':'' @ Itoa (Port test) @ Path test"

definition resolveFailed :: string where
  "resolveFailed = ''Failed to resolve IP from DNS.''"

text \<open>
  \<^verbatim>\<open>testHTTPConnection\<close>. The result is the record returned and the network calls made
  so far. \<open>respDetails\<close> is built from the target after the timeout default and before
  the path is touched. When the request cannot be built the function returns at once.
  Otherwise the host is resolved, the request is sent, the body is read when
  \<^verbatim>\<open>CaptureBody\<close> is set, the elapsed time is stored, and the deferred
  \<^verbatim>\<open>resp.Body.Close()\<close> runs on the way out of a successful round trip.
\<close>

definition testHTTPConnection ::
  "platform \<Rightarrow> nat \<Rightarrow> Configuration \<Rightarrow> net_call list \<Rightarrow> ResponseDetails \<times> net_call list" where
  "testHTTPConnection env testNr test0 log =
     (let test1 = defaultTimeout env test0;
          startTime = now env log;
          respDetails = zero_ResponseDetails\<lparr>Request := test1, Success := False\<rparr>;
          test = normalizePath test1;
          url = requestURL test
      in case newRequest env url of
           Some errRequest \<Rightarrow> (respDetails\<lparr>FailureMessage := errRequest\<rparr>, log)
         | None \<Rightarrow>
             (let (ipRes, err) = resolveIPAddr env log ''ip4'' (Host test);
                  log1 = log @ [ResolveIPAddr ''ip4'' (Host test)];
                  respDetails1 = respDetails\<lparr>IPResolvedStatus := IPAddr_String ipRes\<rparr>;
                  respDetails2 =
                    (if err \<noteq> None then respDetails1\<lparr>IPResolvedStatus := resolveFailed\<rparr>
                     else respDetails1);
                  log2 = log1 @ [ClientDo url (seconds (Timeout test))]
              in case clientDo env log1 url (seconds (Timeout test)) of
                   Inl errClientReq \<Rightarrow>
                     (respDetails2\<lparr>FailureMessage := errClientReq,
                        Time := durationString env (now env log2 - startTime)\<rparr>, log2)
                 | Inr statusCode \<Rightarrow>
                     (let respDetails3 = respDetails2\<lparr>Status := statusCode, Success := True\<rparr>;
                          (respDetails4, log3) =
                            (if CaptureBody test
                             then (let (respBody, errRead) = readAll env log2
                                   in (respDetails3\<lparr>Body := respBody\<rparr>, log2 @ [ReadAll]))
                             else (respDetails3, log2))
                      in (respDetails4\<lparr>Time := durationString env (now env log3 - startTime)\<rparr>,
                          log3 @ [BodyClose]))))"

text \<open>\<^verbatim>\<open>testTCPConnection\<close>.\<close>

definition testTCPConnection ::
  "platform \<Rightarrow> nat \<Rightarrow> Configuration \<Rightarrow> net_call list \<Rightarrow> ResponseDetails \<times> net_call list" where
  "testTCPConnection env testNr test0 log =
     (let test = defaultTimeout env test0;
          startTime = now env log;
          respDetails = zero_ResponseDetails\<lparr>Request := test, Success := False\<rparr>;
          address = joinHostPort env (Host test) (Itoa (Port test));
          log1 = log @ [DialTimeout ''tcp'' address (seconds (Timeout test))];
          respDetails1 =
            (case dialTimeout env log ''tcp'' address (seconds (Timeout test)) of
               Some err \<Rightarrow> respDetails\<lparr>FailureMessage := err\<rparr>
             | None \<Rightarrow> respDetails\<lparr>Success := True\<rparr>)
      in (respDetails1\<lparr>Time := durationString env (now env log1 - startTime)\<rparr>, log1))"

subsection \<open>The dispatcher\<close>

text \<open>
  The text of the configuration error:
  \<^verbatim>\<open>fmt.Sprintf("[%d] Configurstion error: protocol \"%s\" specified for host \"%s\" is invalid. Must be TCP, HTTP, or HTTPS.\n", testNr, lowerCaseProto, netTest.Host)\<close>.
\<close>

definition failureCause :: "nat \<Rightarrow> string \<Rightarrow> string \<Rightarrow> string" where
  "failureCause testNr lowerCaseProto host =
     ''['' @ Itoa (int testNr) @ ''] Configurstion error: protocol '' @ [CHR 0x22]
     @ lowerCaseProto @ [CHR 0x22] @ '' specified for host '' @ [CHR 0x22] @ host
     @ [CHR 0x22] @ '' is invalid. Must be TCP, HTTP, or HTTPS.'' @ [CHR 0x0A]"

text \<open>
  The body of the loop of \<^verbatim>\<open>runTests\<close> for one target: the record for the target and
  the network calls made so far.
\<close>

definition runTest ::
  "platform \<Rightarrow> nat \<Rightarrow> Configuration \<Rightarrow> net_call list \<Rightarrow> ResponseDetails \<times> net_call list" where
  "runTest env testNr netTest log =
     (let resp = zero_ResponseDetails;
          lowerCaseProto = ToLower env (Proto netTest)
      in if lowerCaseProto = ''http'' \<or> lowerCaseProto = ''https''
         then testHTTPConnection env testNr netTest log
         else if lowerCaseProto = ''tcp''
         then testTCPConnection env testNr netTest log
         else (resp\<lparr>Request := netTest,
                 FailureMessage := failureCause testNr lowerCaseProto (Host netTest)\<rparr>, log))"

text \<open>
  The state of \<^verbatim>\<open>runTests\<close>: the configuration it was called with (whose slice
  \<^verbatim>\<open>config.Config\<close> shares its backing array with the caller's), the slice
  \<^verbatim>\<open>results\<close>, and the network calls made so far.
\<close>

record run_state =
  config :: TestConfig
  results :: "ResponseDetails list"
  net_log :: "net_call list"

text \<open>
  One iteration of \<^verbatim>\<open>for testNr, netTest := range config.Config\<close>: the element is
  copied out of the slice, tested, and the record is appended.
\<close>

definition loop_body :: "platform \<Rightarrow> nat \<Rightarrow> run_state \<Rightarrow> run_state" where
  "loop_body env testNr st =
     (let netTest = Config (config st) ! testNr;
          (resp, log) = runTest env testNr netTest (net_log st)
      in st\<lparr>results := results st @ [resp], net_log := log\<rparr>)"

text \<open>
  The \<^verbatim>\<open>range\<close> loop: the length of the slice is read once, then \<open>k\<close> iterations are
  left, and the next one has index \<open>testNr\<close>. The loop starts at index 0 with as many
  iterations as the slice has elements and never writes the slice, so every index it
  reads is below the length.
\<close>

primrec range_loop :: "platform \<Rightarrow> nat \<Rightarrow> nat \<Rightarrow> run_state \<Rightarrow> run_state" where
  "range_loop env 0 testNr st = st"
| "range_loop env (Suc k) testNr st = range_loop env k (Suc testNr) (loop_body env testNr st)"

definition runTests_state :: "platform \<Rightarrow> TestConfig \<Rightarrow> net_call list \<Rightarrow> run_state" where
  "runTests_state env cfg log =
     range_loop env (length (Config cfg)) 0 \<lparr>config = cfg, results = [], net_log = log\<rparr>"

definition runTests :: "platform \<Rightarrow> TestConfig \<Rightarrow> net_call list \<Rightarrow> ResponseDetails list" where
  "runTests env cfg log = results (runTests_state env cfg log)"

subsection \<open>Names for what the program computes\<close>

text \<open>
  The branch of the \<^verbatim>\<open>if\<close> chain of \<^verbatim>\<open>runTests\<close> that a target takes: the
  conditions are those of the chain, in its order.
\<close>

datatype strategy = HTTPProbe | TCPProbe | Unsupported

definition route :: "platform \<Rightarrow> Configuration \<Rightarrow> strategy" where
  "route env netTest =
     (let lowerCaseProto = ToLower env (Proto netTest)
      in if lowerCaseProto = ''http'' \<or> lowerCaseProto = ''https'' then HTTPProbe
         else if lowerCaseProto = ''tcp'' then TCPProbe
         else Unsupported)"

text \<open>The timeout a probe works with, after its first statement.\<close>

definition effectiveTimeout :: "platform \<Rightarrow> Configuration \<Rightarrow> int" where
  "effectiveTimeout env test = (if Timeout test = 0 then timeout env else Timeout test)"

text \<open>The path and the URL \<^verbatim>\<open>testHTTPConnection\<close> requests, from the target as configured.\<close>

definition normalizedPath :: "string \<Rightarrow> string" where
  "normalizedPath p = (if HasPrefix p ''/'' then p else ''/'' @ p)"

definition httpURL :: "Configuration \<Rightarrow> string" where
  "httpURL test =
     Proto test @ ''://'' @ Host test @ '':'' @ Itoa (Port test) @ normalizedPath (Path test)"

text \<open>
  The network calls made once \<^verbatim>\<open>testHTTPConnection\<close> has resolved the host, and once
  it has sent the request.
\<close>

definition httpResolved :: "net_call list \<Rightarrow> Configuration \<Rightarrow> net_call list" where
  "httpResolved log test = log @ [ResolveIPAddr ''ip4'' (Host test)]"

definition httpSent :: "platform \<Rightarrow> net_call list \<Rightarrow> Configuration \<Rightarrow> net_call list" where
  "httpSent env log test =
     httpResolved log test @ [ClientDo (httpURL test) (seconds (effectiveTimeout env test))]"

text \<open>
  Go measures \<^verbatim>\<open>time.Since\<close> on the monotonic clock: a reading taken after more network
  calls is not earlier.
\<close>

definition monotonic_clock :: "platform \<Rightarrow> bool" where
  "monotonic_clock env = (\<forall>l l'. prefix l l' \<longrightarrow> now env l \<le> now env l')"

subsection \<open>What the specification says, where it differs\<close>

text \<open>
  The effective timeout in the words of the specification: the target's own value when it
  is positive, the run-wide default otherwise.
\<close>

definition spec_effectiveTimeout :: "int \<Rightarrow> Configuration \<Rightarrow> int" where
  "spec_effectiveTimeout default_timeout test =
     (if Timeout test > 0 then Timeout test else default_timeout)"

text \<open>
  The failure message of an unsupported protocol in the words of the specification:
  \<^verbatim>\<open>protocol "<value>" for host "<host>" is invalid; must be tcp, http, or https\<close>.
\<close>

definition spec_failureMessage :: "string \<Rightarrow> string \<Rightarrow> string" where
  "spec_failureMessage v host =
     ''protocol '' @ [CHR 0x22] @ v @ [CHR 0x22] @ '' for host '' @ [CHR 0x22] @ host
     @ [CHR 0x22] @ '' is invalid; must be tcp, http, or https''"

subsection \<open>A concrete platform and concrete targets\<close>

text \<open>
  A platform on which a URL with a space cannot be turned into a request, the host
  \<open>nowhere.invalid\<close> does not resolve and cannot be reached over HTTP, every other HTTP
  round trip is answered with status 404 and a body whose reading breaks off after three
  bytes, only \<open>h:80\<close> accepts a TCP connection, every network call takes a microsecond,
  and the flag \<^verbatim>\<open>-timeout\<close> has its default of 10 seconds.
\<close>

definition demo_platform :: platform where
  "demo_platform =
     \<lparr>timeout = 10,
      newRequest = (\<lambda>url.
         if CHR '' '' \<in> set url then Some ''invalid character in host name'' else None),
      resolveIPAddr = (\<lambda>log network host.
         if host = ''nowhere.invalid'' then (None, Some ''no such host'')
         else (Some ''192.0.2.7'', None)),
      clientDo = (\<lambda>log url d.
         if url = ''http://nowhere.invalid:80/'' then Inl ''no such host'' else Inr 404),
      readAll = (\<lambda>log. (''par'', Some ''unexpected EOF'')),
      dialTimeout = (\<lambda>log network address d.
         if address = ''h:80'' then None else Some ''connection refused''),
      now = (\<lambda>log. 1000 * int (length log)),
      durationString = (\<lambda>d. Itoa d @ ''ns''),
      joinHostPort = (\<lambda>host port. host @ '':'' @ port),
      unicodeToLower = (\<lambda>s. s)\<rparr>"

definition demo_target :: "string \<Rightarrow> string \<Rightarrow> string \<Rightarrow> int \<Rightarrow> bool \<Rightarrow> Configuration" where
  "demo_target proto host path t capture =
     \<lparr>NetworkName = ''demo'', Host = host, Path = path, Port = 80, Proto = proto,
      Timeout = t, CaptureBody = capture\<rparr>"

definition demo_config :: TestConfig where
  "demo_config =
     \<lparr>TestName = ''demo'', Email = [],
      Config = [demo_target ''FTP'' ''h'' [] 0 False,
                demo_target ''Tcp'' ''h'' [] 0 False,
                demo_target ''http'' ''h'' ''foo'' 5 True]\<rparr>"

section \<open>Properties of the embedding\<close>

subsection \<open>The probes, case by case\<close>

lemma defaultTimeout_eq:
  "defaultTimeout env test = test\<lparr>Timeout := effectiveTimeout env test\<rparr>"
  by (simp add: defaultTimeout_def effectiveTimeout_def)

lemma requestURL_normalizePath:
  "requestURL (normalizePath (defaultTimeout env test)) = httpURL test"
  by (simp add: requestURL_def normalizePath_def defaultTimeout_def httpURL_def normalizedPath_def)

lemma normalizePath_fields:
  "Host (normalizePath test) = Host test" "Timeout (normalizePath test) = Timeout test"
  "CaptureBody (normalizePath test) = CaptureBody test"
  by (simp_all add: normalizePath_def)

lemma defaultTimeout_fields:
  "Host (defaultTimeout env test) = Host test" "Path (defaultTimeout env test) = Path test"
  "Port (defaultTimeout env test) = Port test" "Proto (defaultTimeout env test) = Proto test"
  "CaptureBody (defaultTimeout env test) = CaptureBody test"
  "NetworkName (defaultTimeout env test) = NetworkName test"
  "Timeout (defaultTimeout env test) = effectiveTimeout env test"
  by (simp_all add: defaultTimeout_def effectiveTimeout_def)

lemma http_request_failed:
  assumes "newRequest env (httpURL test) = Some e"
  shows "testHTTPConnection env testNr test log =
           (zero_ResponseDetails\<lparr>Request := defaultTimeout env test, Success := False,
              FailureMessage := e\<rparr>, log)"
  using assms
  by (simp add: testHTTPConnection_def Let_def requestURL_normalizePath)

lemma http_transport_failed:
  assumes "newRequest env (httpURL test) = None"
    and "clientDo env (httpResolved log test) (httpURL test) (seconds (effectiveTimeout env test)) = Inl e"
  shows "testHTTPConnection env testNr test log =
           (zero_ResponseDetails\<lparr>Request := defaultTimeout env test, Success := False,
              IPResolvedStatus :=
                (if snd (resolveIPAddr env log ''ip4'' (Host test)) \<noteq> None then resolveFailed
                 else IPAddr_String (fst (resolveIPAddr env log ''ip4'' (Host test)))),
              FailureMessage := e,
              Time := durationString env (now env (httpSent env log test) - now env log)\<rparr>,
            httpSent env log test)"
  using assms
  by (simp add: testHTTPConnection_def Let_def requestURL_normalizePath normalizePath_fields
      defaultTimeout_fields httpSent_def httpResolved_def split: prod.splits)

lemma http_round_trip:
  assumes "newRequest env (httpURL test) = None"
    and "clientDo env (httpResolved log test) (httpURL test) (seconds (effectiveTimeout env test)) = Inr code"
  shows "testHTTPConnection env testNr test log =
           (zero_ResponseDetails\<lparr>Request := defaultTimeout env test, Success := True,
              IPResolvedStatus :=
                (if snd (resolveIPAddr env log ''ip4'' (Host test)) \<noteq> None then resolveFailed
                 else IPAddr_String (fst (resolveIPAddr env log ''ip4'' (Host test)))),
              Status := code,
              Body := (if CaptureBody test then fst (readAll env (httpSent env log test)) else []),
              Time := durationString env
                (now env (if CaptureBody test then httpSent env log test @ [ReadAll]
                          else httpSent env log test) - now env log)\<rparr>,
            (if CaptureBody test then httpSent env log test @ [ReadAll]
             else httpSent env log test) @ [BodyClose])"
  using assms
  by (simp add: testHTTPConnection_def Let_def requestURL_normalizePath normalizePath_fields
      defaultTimeout_fields httpSent_def httpResolved_def zero_ResponseDetails_def split: prod.splits)

lemma http_Request:
  "Request (fst (testHTTPConnection env testNr test log)) = defaultTimeout env test"
proof (cases "newRequest env (httpURL test)")
  case (Some e)
  then show ?thesis by (simp add: http_request_failed)
next
  case None
  then show ?thesis
    by (cases "clientDo env (httpResolved log test) (httpURL test) (seconds (effectiveTimeout env test))")
       (simp_all add: http_transport_failed http_round_trip)
qed

lemma tcp_result:
  "testTCPConnection env testNr test log =
     ((case dialTimeout env log ''tcp'' (joinHostPort env (Host test) (Itoa (Port test)))
              (seconds (effectiveTimeout env test)) of
         Some err \<Rightarrow> zero_ResponseDetails\<lparr>Request := defaultTimeout env test, Success := False,
                       FailureMessage := err\<rparr>
       | None \<Rightarrow> zero_ResponseDetails\<lparr>Request := defaultTimeout env test, Success := True\<rparr>)
      \<lparr>Time := durationString env
         (now env (log @ [DialTimeout ''tcp'' (joinHostPort env (Host test) (Itoa (Port test)))
            (seconds (effectiveTimeout env test))]) - now env log)\<rparr>,
      log @ [DialTimeout ''tcp'' (joinHostPort env (Host test) (Itoa (Port test)))
            (seconds (effectiveTimeout env test))])"
  by (simp add: testTCPConnection_def Let_def defaultTimeout_fields split: option.splits)

lemma tcp_Request:
  "Request (fst (testTCPConnection env testNr test log)) = defaultTimeout env test"
  by (simp add: tcp_result split: option.splits)

lemma runTest_route:
  "runTest env testNr netTest log =
     (case route env netTest of
        HTTPProbe \<Rightarrow> testHTTPConnection env testNr netTest log
      | TCPProbe \<Rightarrow> testTCPConnection env testNr netTest log
      | Unsupported \<Rightarrow>
          (zero_ResponseDetails\<lparr>Request := netTest,
             FailureMessage := failureCause testNr (ToLower env (Proto netTest)) (Host netTest)\<rparr>,
           log))"
  by (simp add: runTest_def route_def Let_def)

lemma runTest_Request:
  "Request (fst (runTest env testNr netTest log)) =
     (if route env netTest = Unsupported then netTest else defaultTimeout env netTest)"
  by (cases "route env netTest") (simp_all add: runTest_route http_Request tcp_Request)

lemma loop_body_simps:
  "config (loop_body env testNr st) = config st"
  "results (loop_body env testNr st) =
     results st @ [fst (runTest env testNr (Config (config st) ! testNr) (net_log st))]"
  "net_log (loop_body env testNr st) =
     snd (runTest env testNr (Config (config st) ! testNr) (net_log st))"
  by (simp_all add: loop_body_def Let_def split: prod.splits)

lemma range_loop_config: "config (range_loop env k testNr st) = config st"
  by (induction k arbitrary: testNr st) (simp_all add: loop_body_simps)

lemma range_loop_results:
  "\<exists>new. results (range_loop env k testNr st) = results st @ new \<and> length new = k \<and>
         (\<forall>j<k. \<exists>log. new ! j = fst (runTest env (testNr + j) (Config (config st) ! (testNr + j)) log))"
proof (induction k arbitrary: testNr st)
  case 0
  then show ?case by simp
next
  case (Suc k)
  obtain new where new:
    "results (range_loop env k (Suc testNr) (loop_body env testNr st)) =
       results (loop_body env testNr st) @ new"
    "length new = k"
    "\<forall>j<k. \<exists>log. new ! j =
       fst (runTest env (Suc testNr + j) (Config (config (loop_body env testNr st)) ! (Suc testNr + j)) log)"
    using Suc.IH [of "Suc testNr" "loop_body env testNr st"] by blast
  let ?r = "fst (runTest env testNr (Config (config st) ! testNr) (net_log st))"
  have "results (range_loop env (Suc k) testNr st) = results st @ (?r # new)"
    using new(1) by (simp add: loop_body_simps)
  moreover have "length (?r # new) = Suc k"
    using new(2) by simp
  moreover have "\<forall>j<Suc k. \<exists>log. (?r # new) ! j =
       fst (runTest env (testNr + j) (Config (config st) ! (testNr + j)) log)"
  proof (intro allI impI)
    fix j assume "j < Suc k"
    show "\<exists>log. (?r # new) ! j =
       fst (runTest env (testNr + j) (Config (config st) ! (testNr + j)) log)"
    proof (cases j)
      case 0
      then show ?thesis by auto
    next
      case (Suc j')
      with \<open>j < Suc k\<close> have "j' < k" by simp
      with new(3) obtain log where
        "new ! j' = fst (runTest env (Suc testNr + j')
           (Config (config (loop_body env testNr st)) ! (Suc testNr + j')) log)"
        by blast
      then show ?thesis using Suc by (auto simp: loop_body_simps)
    qed
  qed
  ultimately show ?case by blast
qed

lemma runTests_nth:
  "length (runTests env cfg log) = length (Config cfg) \<and>
   (\<forall>i<length (Config cfg). \<exists>log'. runTests env cfg log ! i = fst (runTest env i (Config cfg ! i) log'))"
  using range_loop_results [of env "length (Config cfg)" 0
      "\<lparr>config = cfg, results = [], net_log = log\<rparr>"]
  by (auto simp: runTests_def runTests_state_def)

lemma http_calls_prefix:
  assumes "newRequest env (httpURL t) = None"
  shows "take 2 (drop (length log) (snd (testHTTPConnection env n t log))) =
           [ResolveIPAddr ''ip4'' (Host t), ClientDo (httpURL t) (seconds (effectiveTimeout env t))]"
  using assms
  by (cases "clientDo env (httpResolved log t) (httpURL t) (seconds (effectiveTimeout env t))")
     (simp_all add: http_transport_failed http_round_trip httpSent_def httpResolved_def)

lemma effectiveTimeout_resolveIPAddr [simp]:
  "effectiveTimeout (env\<lparr>resolveIPAddr := f\<rparr>) t = effectiveTimeout env t"
  by (simp add: effectiveTimeout_def)

subsection \<open>Lower-casing ASCII\<close>

lemma lowerByte_ascii: "(of_char c :: nat) < 128 \<Longrightarrow> (of_char (lowerByte c) :: nat) < 128"
  by (simp add: lowerByte_def)

lemma lowerByte_idem: "lowerByte (lowerByte c) = lowerByte c"
  by (simp add: lowerByte_def)

lemma ToLower_ascii_idem:
  assumes "isASCII s"
  shows "ToLower env (ToLower env s) = ToLower env s"
proof -
  have "isASCII (map lowerByte s)"
    using assms by (simp add: isASCII_def list_all_iff lowerByte_ascii)
  then show ?thesis
    using assms by (simp add: ToLower_def lowerByte_idem)
qed

section \<open>The claims\<close>

text \<open>
  Claim C1. For a configuration of \<open>N\<close> targets \<^verbatim>\<open>runTests\<close> returns exactly \<open>N\<close>
  records, whatever the platform answers. The record at position \<open>i\<close> is the outcome of
  the loop body for the target at position \<open>i\<close>, and its echoed request is that target
  in every field but, at most, the timeout. So no failure of a target ends the run or
  drops a record, and the order of the input is kept.
\<close>

theorem runTests_one_record_per_target:
  "length (runTests env cfg log) = length (Config cfg) \<and>
   (\<forall>i<length (Config cfg).
      (\<exists>log'. runTests env cfg log ! i = fst (runTest env i (Config cfg ! i) log')) \<and>
      (Request (runTests env cfg log ! i))\<lparr>Timeout := Timeout (Config cfg ! i)\<rparr> = Config cfg ! i)"
proof -
  have restore: "(Request (fst (runTest env i t log')))\<lparr>Timeout := Timeout t\<rparr> = t" for i t log'
    by (simp add: runTest_Request defaultTimeout_eq)
  show ?thesis
    using runTests_nth [of env cfg log] restore by metis
qed

text \<open>
  On the concrete configuration of three targets (an unsupported protocol, a TCP target
  and an HTTP target) three records come back, and the third echoes the third target.
\<close>

theorem runTests_one_record_per_target_witness:
  "length (runTests demo_platform demo_config []) = 3 \<and>
   (Request (runTests demo_platform demo_config [] ! 2))\<lparr>Timeout := 5\<rparr> =
     demo_target ''http'' ''h'' ''foo'' 5 True"
proof -
  have len: "length (Config demo_config) = 3"
    by (simp add: demo_config_def)
  have third: "Config demo_config ! 2 = demo_target ''http'' ''h'' ''foo'' 5 True"
    by (simp add: demo_config_def)
  have t: "Timeout (demo_target ''http'' ''h'' ''foo'' 5 True) = 5"
    by (simp add: demo_target_def)
  have "2 < length (Config demo_config)"
    using len by simp
  with runTests_one_record_per_target [of demo_platform demo_config "[]"]
  have "length (runTests demo_platform demo_config []) = length (Config demo_config)"
    and "(Request (runTests demo_platform demo_config [] ! 2))
           \<lparr>Timeout := Timeout (Config demo_config ! 2)\<rparr> = Config demo_config ! 2"
    by blast+
  then show ?thesis
    using len third t by simp
qed

text \<open>
  Claim C2 fails as stated: the record of an unsupported protocol is built by
  \<^verbatim>\<open>runTests\<close> without a probe and never gets a \<^verbatim>\<open>Time\<close>, and
  \<^verbatim>\<open>testHTTPConnection\<close> returns before storing the time when the request cannot be
  built. In both cases the field is the empty string.
\<close>

theorem no_elapsed_time_without_probe:
  "route demo_platform (demo_target ''ftp'' ''h'' [] 0 False) = Unsupported \<and>
   Time (fst (runTest demo_platform 0 (demo_target ''ftp'' ''h'' [] 0 False) [])) = [] \<and>
   route demo_platform (demo_target ''http'' ''bad host'' [] 0 False) = HTTPProbe \<and>
   newRequest demo_platform (httpURL (demo_target ''http'' ''bad host'' [] 0 False)) =
     Some ''invalid character in host name'' \<and>
   Time (fst (runTest demo_platform 0 (demo_target ''http'' ''bad host'' [] 0 False) [])) = []"
  by code_simp

text \<open>
  Claim C2, amended. On a platform with a monotonic clock whose rendering of a
  non-negative duration is never empty: for a target routed to the TCP probe, and for a
  target routed to the HTTP probe whose request can be built, the field \<^verbatim>\<open>Time\<close> of
  the record is the rendering of a non-negative duration and is not empty, on success and
  on failure alike. For a target with an unsupported protocol no probe runs and the field
  is empty.
\<close>

theorem elapsed_time_of_probes:
  assumes "monotonic_clock env" and "\<forall>d\<ge>0. durationString env d \<noteq> []"
  shows "(route env t = TCPProbe \<or>
          route env t = HTTPProbe \<and> newRequest env (requestURL (normalizePath (defaultTimeout env t))) = None
          \<longrightarrow> (\<exists>d\<ge>0. Time (fst (runTest env n t log)) = durationString env d) \<and>
              Time (fst (runTest env n t log)) \<noteq> []) \<and>
         (route env t = Unsupported \<longrightarrow> Time (fst (runTest env n t log)) = [])"
proof -
  have mono: "0 \<le> now env (log @ l) - now env log" for l
    using assms(1) by (simp add: monotonic_clock_def)
  have filled: "\<exists>d\<ge>0. durationString env (now env (log @ l) - now env log) = durationString env d"
      "durationString env (now env (log @ l) - now env log) \<noteq> []" for l
    using mono [of l] assms(2) by blast+
  have tcp: "route env t = TCPProbe \<Longrightarrow>
      (\<exists>d\<ge>0. Time (fst (runTest env n t log)) = durationString env d) \<and>
      Time (fst (runTest env n t log)) \<noteq> []"
    using filled by (simp add: runTest_route tcp_result split: option.splits)
  have http: "(\<exists>d\<ge>0. Time (fst (runTest env n t log)) = durationString env d) \<and>
      Time (fst (runTest env n t log)) \<noteq> []"
    if r: "route env t = HTTPProbe" and ok: "newRequest env (httpURL t) = None"
  proof (cases "clientDo env (httpResolved log t) (httpURL t) (seconds (effectiveTimeout env t))")
    case (Inl e)
    have "Time (fst (runTest env n t log)) =
        durationString env (now env (log @ [ResolveIPAddr ''ip4'' (Host t),
          ClientDo (httpURL t) (seconds (effectiveTimeout env t))]) - now env log)"
      using r by (simp add: runTest_route http_transport_failed [OF ok Inl] httpSent_def httpResolved_def)
    then show ?thesis using filled by simp
  next
    case (Inr code)
    have "Time (fst (runTest env n t log)) =
        durationString env (now env (log @ (if CaptureBody t
          then [ResolveIPAddr ''ip4'' (Host t),
                ClientDo (httpURL t) (seconds (effectiveTimeout env t)), ReadAll]
          else [ResolveIPAddr ''ip4'' (Host t),
                ClientDo (httpURL t) (seconds (effectiveTimeout env t))])) - now env log)"
      using r by (simp add: runTest_route http_round_trip [OF ok Inr] httpSent_def httpResolved_def)
    then show ?thesis using filled by simp
  qed
  have none: "route env t = Unsupported \<Longrightarrow> Time (fst (runTest env n t log)) = []"
    by (simp add: runTest_route zero_ResponseDetails_def)
  show ?thesis
    using tcp http none by (auto simp: requestURL_normalizePath)
qed

text \<open>
  The concrete platform has a monotonic clock and never renders a duration as the empty
  string; a TCP target gets its time, an \<open>ftp\<close> target gets none.
\<close>

theorem elapsed_time_of_probes_witness:
  "(\<exists>d\<ge>0. Time (fst (runTest demo_platform 0 (demo_target ''tcp'' ''h'' [] 0 False) [])) =
        durationString demo_platform d) \<and>
   Time (fst (runTest demo_platform 0 (demo_target ''tcp'' ''h'' [] 0 False) [])) \<noteq> [] \<and>
   Time (fst (runTest demo_platform 0 (demo_target ''ftp'' ''h'' [] 0 False) [])) = []"
proof -
  have clock: "monotonic_clock demo_platform"
    by (simp add: monotonic_clock_def demo_platform_def prefix_length_le)
  have str: "\<forall>d\<ge>0. durationString demo_platform d \<noteq> []"
    by (simp add: demo_platform_def)
  have tcp: "route demo_platform (demo_target ''tcp'' ''h'' [] 0 False) = TCPProbe"
    by code_simp
  have ftp: "route demo_platform (demo_target ''ftp'' ''h'' [] 0 False) = Unsupported"
    by code_simp
  show ?thesis
    using elapsed_time_of_probes [OF clock str, of "demo_target ''tcp'' ''h'' [] 0 False" 0 "[]"]
      elapsed_time_of_probes [OF clock str, of "demo_target ''ftp'' ''h'' [] 0 False" 0 "[]"]
      tcp ftp
    by simp
qed

text \<open>
  Claim C3 fails as stated: the empty path does not start with a slash, so it gets one,
  and the URL requested is \<^verbatim>\<open>http://h:80/\<close>, not the bare \<^verbatim>\<open>http://h:80\<close>.
\<close>

theorem empty_path_gets_slash:
  "Path (demo_target ''http'' ''h'' [] 0 False) = [] \<and>
   snd (testHTTPConnection demo_platform 0 (demo_target ''http'' ''h'' [] 0 False) []) =
     [ResolveIPAddr ''ip4'' ''h'', ClientDo ''http://h:80/'' 10000000000, BodyClose] \<and>
   ClientDo ''http://h:80'' 10000000000 \<notin>
     set (snd (testHTTPConnection demo_platform 0 (demo_target ''http'' ''h'' [] 0 False) []))"
  by code_simp

text \<open>
  Claim C3, amended. The path gets a leading slash whenever it does not start with one,
  the empty path included. The URL of the request is
  \<^verbatim>\<open><proto>://<host>:<port><path>\<close> with that path, and when the request can be built
  it is the URL sent, right after the host has been resolved.
\<close>

theorem http_request_url:
  assumes "newRequest env (requestURL (normalizePath (defaultTimeout env t))) = None"
  shows "requestURL (normalizePath (defaultTimeout env t)) =
           Proto t @ ''://'' @ Host t @ '':'' @ Itoa (Port t)
           @ (if HasPrefix (Path t) ''/'' then Path t else ''/'' @ Path t) \<and>
         take 2 (drop (length log) (snd (testHTTPConnection env n t log))) =
           [ResolveIPAddr ''ip4'' (Host t),
            ClientDo (requestURL (normalizePath (defaultTimeout env t)))
              (seconds (Timeout (defaultTimeout env t)))]"
  using assms http_calls_prefix [of env t log n]
  by (simp add: requestURL_normalizePath defaultTimeout_fields httpURL_def normalizedPath_def)

text \<open>A target with the path \<open>foo\<close> is requested at \<^verbatim>\<open>http://h:80/foo\<close>.\<close>

theorem http_request_url_witness:
  "take 2 (snd (testHTTPConnection demo_platform 0 (demo_target ''http'' ''h'' ''foo'' 0 False) [])) =
     [ResolveIPAddr ''ip4'' ''h'', ClientDo ''http://h:80/foo'' 10000000000]"
proof -
  have ok: "newRequest demo_platform
      (requestURL (normalizePath (defaultTimeout demo_platform (demo_target ''http'' ''h'' ''foo'' 0 False)))) = None"
    by code_simp
  have url: "requestURL (normalizePath (defaultTimeout demo_platform (demo_target ''http'' ''h'' ''foo'' 0 False)))
      = ''http://h:80/foo''"
    by code_simp
  have d: "seconds (Timeout (defaultTimeout demo_platform (demo_target ''http'' ''h'' ''foo'' 0 False)))
      = 10000000000"
    by code_simp
  have h: "Host (demo_target ''http'' ''h'' ''foo'' 0 False) = ''h''"
    by code_simp
  show ?thesis
    using http_request_url [OF ok, of "[]" 0] url d h by simp
qed

text \<open>
  Claim C4 fails as stated: the bytes returned by \<^verbatim>\<open>ioutil.ReadAll\<close> are stored in
  \<^verbatim>\<open>Body\<close> before the error is looked at, so a read that breaks off after three bytes
  leaves those three bytes in the record.
\<close>

theorem partial_body_is_kept:
  "snd (readAll demo_platform (httpSent demo_platform [] (demo_target ''http'' ''h'' [] 0 True))) =
     Some ''unexpected EOF'' \<and>
   Success (fst (testHTTPConnection demo_platform 0 (demo_target ''http'' ''h'' [] 0 True) [])) \<and>
   Body (fst (testHTTPConnection demo_platform 0 (demo_target ''http'' ''h'' [] 0 True) [])) = ''par''"
  by code_simp

text \<open>
  Claim C4, amended. For an HTTP or HTTPS target with \<^verbatim>\<open>CaptureBody\<close> set whose round
  trip succeeds and whose body read fails, the record keeps \<^verbatim>\<open>Success = true\<close> and an
  empty failure message, and \<^verbatim>\<open>Body\<close> holds the bytes that were read before the
  failure (none, or a part of the payload).
\<close>

theorem body_read_failure:
  assumes "newRequest env (httpURL t) = None"
    and "clientDo env (httpResolved log t) (httpURL t) (seconds (effectiveTimeout env t)) = Inr code"
    and "CaptureBody t"
    and "readAll env (httpSent env log t) = (read, Some e)"
  shows "Success (fst (testHTTPConnection env n t log)) \<and>
         FailureMessage (fst (testHTTPConnection env n t log)) = [] \<and>
         Body (fst (testHTTPConnection env n t log)) = read"
  using assms(3,4)
  by (simp add: http_round_trip [OF assms(1,2)] zero_ResponseDetails_def)

text \<open>On the concrete platform every body read fails after the bytes \<open>par\<close>.\<close>

theorem body_read_failure_witness:
  "Success (fst (testHTTPConnection demo_platform 0 (demo_target ''http'' ''h'' [] 0 True) [])) \<and>
   FailureMessage (fst (testHTTPConnection demo_platform 0 (demo_target ''http'' ''h'' [] 0 True) [])) = [] \<and>
   Body (fst (testHTTPConnection demo_platform 0 (demo_target ''http'' ''h'' [] 0 True) [])) = ''par''"
proof -
  let ?t = "demo_target ''http'' ''h'' [] 0 True"
  have 1: "newRequest demo_platform (httpURL ?t) = None"
    by code_simp
  have 2: "clientDo demo_platform (httpResolved [] ?t) (httpURL ?t)
      (seconds (effectiveTimeout demo_platform ?t)) = Inr 404"
    by code_simp
  have 3: "CaptureBody ?t"
    by code_simp
  have 4: "readAll demo_platform (httpSent demo_platform [] ?t) = (''par'', Some ''unexpected EOF'')"
    by code_simp
  show ?thesis
    by (rule body_read_failure [OF 1 2 3 4])
qed

text \<open>
  Claim C5 fails as stated: the message of the program has another wording than the one
  the specification gives, with the protocol as configured or lower-cased.
\<close>

theorem failure_message_differs:
  "ToLower demo_platform (Proto (demo_target ''FTP'' ''h'' [] 0 False)) \<notin> {''tcp'', ''http'', ''https''} \<and>
   FailureMessage (fst (runTest demo_platform 0 (demo_target ''FTP'' ''h'' [] 0 False) [])) \<noteq>
     spec_failureMessage ''FTP'' ''h'' \<and>
   FailureMessage (fst (runTest demo_platform 0 (demo_target ''FTP'' ''h'' [] 0 False) [])) \<noteq>
     spec_failureMessage ''ftp'' ''h''"
  by code_simp

text \<open>
  Claim C5, amended. For a target whose lower-cased protocol is none of \<open>tcp\<close>,
  \<open>http\<close>, \<open>https\<close>, the dispatcher makes no network call, and the record has
  \<^verbatim>\<open>Success = false\<close> and the failure message
  \<^verbatim>\<open>[<index>] Configurstion error: protocol "<lower-cased protocol>" specified for host "<host>" is invalid. Must be TCP, HTTP, or HTTPS.\<close>
  followed by a newline, which contains the lower-cased protocol and the host.
\<close>

theorem unsupported_protocol_record:
  assumes "ToLower env (Proto t) \<notin> {''tcp'', ''http'', ''https''}"
  shows "snd (runTest env n t log) = log \<and>
         \<not> Success (fst (runTest env n t log)) \<and>
         FailureMessage (fst (runTest env n t log)) =
           ''['' @ Itoa (int n) @ ''] Configurstion error: protocol '' @ [CHR 0x22]
           @ ToLower env (Proto t) @ [CHR 0x22] @ '' specified for host '' @ [CHR 0x22]
           @ Host t @ [CHR 0x22] @ '' is invalid. Must be TCP, HTTP, or HTTPS.'' @ [CHR 0x0A]"
  using assms
  by (simp add: runTest_def Let_def failureCause_def zero_ResponseDetails_def)

text \<open>The target \<open>FTP\<close> at position 7 is reported as \<open>ftp\<close>.\<close>

theorem unsupported_protocol_record_witness:
  "snd (runTest demo_platform 7 (demo_target ''FTP'' ''h'' [] 0 False) []) = [] \<and>
   \<not> Success (fst (runTest demo_platform 7 (demo_target ''FTP'' ''h'' [] 0 False) [])) \<and>
   FailureMessage (fst (runTest demo_platform 7 (demo_target ''FTP'' ''h'' [] 0 False) [])) =
     ''[7] Configurstion error: protocol '' @ [CHR 0x22] @ ''ftp'' @ [CHR 0x22]
     @ '' specified for host '' @ [CHR 0x22] @ ''h'' @ [CHR 0x22]
     @ '' is invalid. Must be TCP, HTTP, or HTTPS.'' @ [CHR 0x0A]"
proof -
  let ?t = "demo_target ''FTP'' ''h'' [] 0 False"
  have 1: "ToLower demo_platform (Proto ?t) \<notin> {''tcp'', ''http'', ''https''}"
    by code_simp
  have 2: "ToLower demo_platform (Proto ?t) = ''ftp''"
    by code_simp
  have 3: "Host ?t = ''h''"
    by code_simp
  have 4: "Itoa (int 7) = ''7''"
    by code_simp
  show ?thesis
    using unsupported_protocol_record [OF 1, of 7 "[]"] 2 3 4 by simp
qed

text \<open>
  Claim C6 fails as stated: the probes replace the timeout only when it is zero, so a
  negative timeout is kept and used, where the specification asks for the default of 10
  seconds.
\<close>

theorem negative_timeout_is_used:
  "spec_effectiveTimeout (timeout demo_platform) (demo_target ''tcp'' ''h'' [] (- 1) False) = 10 \<and>
   Timeout (Request (fst (testTCPConnection demo_platform 0 (demo_target ''tcp'' ''h'' [] (- 1) False) []))) = - 1 \<and>
   snd (testTCPConnection demo_platform 0 (demo_target ''tcp'' ''h'' [] (- 1) False) []) =
     [DialTimeout ''tcp'' ''h:80'' (- 1000000000)]"
  by code_simp

text \<open>
  Claim C6, amended. Both probes work with the target's own timeout when it is not zero
  and with the run-wide default when it is zero: this is the timeout of the TCP dial, of
  the HTTP client (when the request can be built), and of the echoed request. So a
  timeout of 0 gives the default and a timeout of 5 gives 5.
\<close>

theorem effective_timeout_resolution:
  "snd (testTCPConnection env n t log) =
     log @ [DialTimeout ''tcp'' (joinHostPort env (Host t) (Itoa (Port t)))
              (seconds (if Timeout t = 0 then timeout env else Timeout t))] \<and>
   Timeout (Request (fst (testTCPConnection env n t log))) =
     (if Timeout t = 0 then timeout env else Timeout t) \<and>
   Timeout (Request (fst (testHTTPConnection env n t log))) =
     (if Timeout t = 0 then timeout env else Timeout t) \<and>
   (newRequest env (requestURL (normalizePath (defaultTimeout env t))) = None \<longrightarrow>
      snd (testHTTPConnection env n t log) ! Suc (length log) =
        ClientDo (requestURL (normalizePath (defaultTimeout env t)))
          (seconds (if Timeout t = 0 then timeout env else Timeout t)))"
proof -
  have "snd (testHTTPConnection env n t log) ! Suc (length log) =
        ClientDo (httpURL t) (seconds (effectiveTimeout env t))"
    if ok: "newRequest env (httpURL t) = None"
    by (cases "clientDo env (httpResolved log t) (httpURL t) (seconds (effectiveTimeout env t))")
       (simp_all add: http_transport_failed [OF ok] http_round_trip [OF ok] httpSent_def
          httpResolved_def nth_append)
  moreover have "snd (testTCPConnection env n t log) =
     log @ [DialTimeout ''tcp'' (joinHostPort env (Host t) (Itoa (Port t)))
              (seconds (effectiveTimeout env t))]"
    by (simp add: tcp_result)
  ultimately show ?thesis
    by (simp add: http_Request tcp_Request defaultTimeout_fields
        requestURL_normalizePath effectiveTimeout_def)
qed

text \<open>With a default of 10 seconds, a timeout of 5 is sent as 5 seconds and a timeout of 0 as 10.\<close>

theorem effective_timeout_resolution_witness:
  "snd (testHTTPConnection demo_platform 0 (demo_target ''http'' ''h'' [] 5 False) []) ! 1 =
     ClientDo ''http://h:80/'' 5000000000 \<and>
   snd (testHTTPConnection demo_platform 0 (demo_target ''http'' ''h'' [] 0 False) []) ! 1 =
     ClientDo ''http://h:80/'' 10000000000"
proof -
  let ?t5 = "demo_target ''http'' ''h'' [] 5 False"
  let ?t0 = "demo_target ''http'' ''h'' [] 0 False"
  have ok5: "newRequest demo_platform (requestURL (normalizePath (defaultTimeout demo_platform ?t5))) = None"
    by code_simp
  have ok0: "newRequest demo_platform (requestURL (normalizePath (defaultTimeout demo_platform ?t0))) = None"
    by code_simp
  have v5: "ClientDo (requestURL (normalizePath (defaultTimeout demo_platform ?t5)))
      (seconds (if Timeout ?t5 = 0 then timeout demo_platform else Timeout ?t5)) =
      ClientDo ''http://h:80/'' 5000000000"
    by code_simp
  have v0: "ClientDo (requestURL (normalizePath (defaultTimeout demo_platform ?t0)))
      (seconds (if Timeout ?t0 = 0 then timeout demo_platform else Timeout ?t0)) =
      ClientDo ''http://h:80/'' 10000000000"
    by code_simp
  show ?thesis
    using effective_timeout_resolution [of demo_platform 0 ?t5 "[]"]
      effective_timeout_resolution [of demo_platform 0 ?t0 "[]"] ok5 ok0 v5 v0
    by simp
qed

text \<open>
  Claim C7. For an HTTP or HTTPS probe whose request can be built: when the round trip
  succeeds the record has \<^verbatim>\<open>Success = true\<close> and the status code of the response,
  whatever that code is; when it fails the record has \<^verbatim>\<open>Success = false\<close>, the error
  text as failure message, and the status code zero.
\<close>

theorem http_transport_outcome:
  assumes "newRequest env (httpURL t) = None"
  shows "(\<forall>code. clientDo env (httpResolved log t) (httpURL t) (seconds (effectiveTimeout env t)) = Inr code
            \<longrightarrow> Success (fst (testHTTPConnection env n t log)) \<and>
                Status (fst (testHTTPConnection env n t log)) = code) \<and>
         (\<forall>e. clientDo env (httpResolved log t) (httpURL t) (seconds (effectiveTimeout env t)) = Inl e
            \<longrightarrow> \<not> Success (fst (testHTTPConnection env n t log)) \<and>
                FailureMessage (fst (testHTTPConnection env n t log)) = e \<and>
                Status (fst (testHTTPConnection env n t log)) = 0)"
  by (simp add: http_transport_failed [OF assms] http_round_trip [OF assms] zero_ResponseDetails_def)

text \<open>A response with status 404 is a success; an unreachable host is a failure with status 0.\<close>

theorem http_transport_outcome_witness:
  "Success (fst (testHTTPConnection demo_platform 0 (demo_target ''http'' ''h'' [] 0 False) [])) \<and>
   Status (fst (testHTTPConnection demo_platform 0 (demo_target ''http'' ''h'' [] 0 False) [])) = 404 \<and>
   \<not> Success (fst (testHTTPConnection demo_platform 0
        (demo_target ''http'' ''nowhere.invalid'' [] 0 False) [])) \<and>
   FailureMessage (fst (testHTTPConnection demo_platform 0
        (demo_target ''http'' ''nowhere.invalid'' [] 0 False) [])) = ''no such host'' \<and>
   Status (fst (testHTTPConnection demo_platform 0
        (demo_target ''http'' ''nowhere.invalid'' [] 0 False) [])) = 0"
proof -
  let ?t = "demo_target ''http'' ''h'' [] 0 False"
  let ?u = "demo_target ''http'' ''nowhere.invalid'' [] 0 False"
  have okt: "newRequest demo_platform (httpURL ?t) = None"
    by code_simp
  have oku: "newRequest demo_platform (httpURL ?u) = None"
    by code_simp
  have rt: "clientDo demo_platform (httpResolved [] ?t) (httpURL ?t)
      (seconds (effectiveTimeout demo_platform ?t)) = Inr 404"
    by code_simp
  have ru: "clientDo demo_platform (httpResolved [] ?u) (httpURL ?u)
      (seconds (effectiveTimeout demo_platform ?u)) = Inl ''no such host''"
    by code_simp
  show ?thesis
    using http_transport_outcome [OF okt, of "[]" 0] http_transport_outcome [OF oku, of "[]" 0] rt ru
    by blast
qed

text \<open>
  Claim C8. For an HTTP or HTTPS probe whose request can be built: when the resolution
  fails \<^verbatim>\<open>IPResolvedStatus\<close> is the sentinel \<^verbatim>\<open>Failed to resolve IP from DNS.\<close>, when
  it succeeds it is the text of the address, and replacing the resolver by any other
  changes neither \<^verbatim>\<open>Success\<close> nor \<^verbatim>\<open>FailureMessage\<close>.
\<close>

theorem resolution_is_informational:
  assumes "newRequest env (httpURL t) = None"
  shows "(\<forall>a e. resolveIPAddr env log ''ip4'' (Host t) = (a, Some e)
            \<longrightarrow> IPResolvedStatus (fst (testHTTPConnection env n t log)) =
                  ''Failed to resolve IP from DNS.'') \<and>
         (\<forall>a. resolveIPAddr env log ''ip4'' (Host t) = (Some a, None)
            \<longrightarrow> IPResolvedStatus (fst (testHTTPConnection env n t log)) = a) \<and>
         (\<forall>f. Success (fst (testHTTPConnection (env\<lparr>resolveIPAddr := f\<rparr>) n t log)) =
                Success (fst (testHTTPConnection env n t log)) \<and>
              FailureMessage (fst (testHTTPConnection (env\<lparr>resolveIPAddr := f\<rparr>) n t log)) =
                FailureMessage (fst (testHTTPConnection env n t log)))"
proof (cases "clientDo env (httpResolved log t) (httpURL t) (seconds (effectiveTimeout env t))")
  case (Inl e)
  have ok': "newRequest (env\<lparr>resolveIPAddr := f\<rparr>) (httpURL t) = None" for f
    using assms by simp
  have do': "clientDo (env\<lparr>resolveIPAddr := f\<rparr>) (httpResolved log t) (httpURL t)
      (seconds (effectiveTimeout (env\<lparr>resolveIPAddr := f\<rparr>) t)) = Inl e" for f
    using Inl by simp
  show ?thesis
    by (simp add: http_transport_failed [OF assms Inl] http_transport_failed [OF ok' do']
        resolveFailed_def IPAddr_String_def)
next
  case (Inr code)
  have ok': "newRequest (env\<lparr>resolveIPAddr := f\<rparr>) (httpURL t) = None" for f
    using assms by simp
  have do': "clientDo (env\<lparr>resolveIPAddr := f\<rparr>) (httpResolved log t) (httpURL t)
      (seconds (effectiveTimeout (env\<lparr>resolveIPAddr := f\<rparr>) t)) = Inr code" for f
    using Inr by simp
  show ?thesis
    by (simp add: http_round_trip [OF assms Inr] http_round_trip [OF ok' do']
        resolveFailed_def IPAddr_String_def)
qed

text \<open>
  The host \<open>nowhere.invalid\<close> gets the sentinel, and a resolver that succeeds leaves the
  success flag as it was.
\<close>

theorem resolution_is_informational_witness:
  "IPResolvedStatus (fst (testHTTPConnection demo_platform 0
       (demo_target ''https'' ''nowhere.invalid'' [] 0 False) [])) = ''Failed to resolve IP from DNS.'' \<and>
   Success (fst (testHTTPConnection (demo_platform\<lparr>resolveIPAddr := (\<lambda>log network host. (Some ''192.0.2.9'', None))\<rparr>) 0
       (demo_target ''https'' ''nowhere.invalid'' [] 0 False) [])) =
   Success (fst (testHTTPConnection demo_platform 0
       (demo_target ''https'' ''nowhere.invalid'' [] 0 False) []))"
proof -
  let ?u = "demo_target ''https'' ''nowhere.invalid'' [] 0 False"
  have ok: "newRequest demo_platform (httpURL ?u) = None"
    by code_simp
  have res: "resolveIPAddr demo_platform [] ''ip4'' (Host ?u) = (None, Some ''no such host'')"
    by code_simp
  show ?thesis
    using resolution_is_informational [OF ok, of "[]" 0] res by blast
qed

text \<open>
  Claim C9. The branch a target takes does not change when its protocol is replaced by
  its lower-cased form. This holds for every protocol made of ASCII bytes, which covers
  every case variant of \<open>tcp\<close>, \<open>http\<close> and \<open>https\<close>, and for any other protocol as
  long as the platform's Unicode lower-casing returns a string that lower-casing leaves
  alone.
\<close>

theorem routing_case_insensitive:
  assumes "isASCII (Proto t) \<or> ToLower env (unicodeToLower env (Proto t)) = unicodeToLower env (Proto t)"
  shows "route env (t\<lparr>Proto := ToLower env (Proto t)\<rparr>) = route env t"
proof -
  have "ToLower env (ToLower env (Proto t)) = ToLower env (Proto t)"
  proof (cases "isASCII (Proto t)")
    case True
    then show ?thesis by (rule ToLower_ascii_idem)
  next
    case False
    with assms show ?thesis by (simp add: ToLower_def)
  qed
  then show ?thesis by (simp add: route_def)
qed

text \<open>\<open>Tcp\<close> is routed as \<open>tcp\<close>, to the TCP probe.\<close>

theorem routing_case_insensitive_witness:
  "route demo_platform (demo_target ''tcp'' ''h'' [] 0 False) =
     route demo_platform (demo_target ''Tcp'' ''h'' [] 0 False) \<and>
   route demo_platform (demo_target ''Tcp'' ''h'' [] 0 False) = TCPProbe"
proof -
  let ?t = "demo_target ''Tcp'' ''h'' [] 0 False"
  have a: "isASCII (Proto ?t) \<or>
      ToLower demo_platform (unicodeToLower demo_platform (Proto ?t)) = unicodeToLower demo_platform (Proto ?t)"
    by code_simp
  have l: "?t\<lparr>Proto := ToLower demo_platform (Proto ?t)\<rparr> = demo_target ''tcp'' ''h'' [] 0 False"
    by code_simp
  have r: "route demo_platform ?t = TCPProbe"
    by code_simp
  show ?thesis
    using routing_case_insensitive [OF a] l r by simp
qed

text \<open>
  Claim C10. After the run the configuration is the one \<^verbatim>\<open>runTests\<close> was called with.
  For every target routed to the HTTP or the TCP probe, the echoed request is the target
  with its timeout replaced by the run-wide default when it was zero, and with every
  other field, the path among them, as configured: the slash added for the URL is not in
  the record.
\<close>

theorem echoed_request_snapshot:
  "config (runTests_state env cfg log) = cfg \<and>
   (\<forall>i<length (Config cfg). route env (Config cfg ! i) \<noteq> Unsupported \<longrightarrow>
      Request (results (runTests_state env cfg log) ! i) =
        (Config cfg ! i)\<lparr>Timeout :=
           (if Timeout (Config cfg ! i) = 0 then timeout env else Timeout (Config cfg ! i))\<rparr> \<and>
      Path (Request (results (runTests_state env cfg log) ! i)) = Path (Config cfg ! i))"
proof -
  have cfg: "config (runTests_state env cfg log) = cfg"
    by (simp add: runTests_state_def range_loop_config)
  have req: "Request (fst (runTest env i t log')) =
      t\<lparr>Timeout := (if Timeout t = 0 then timeout env else Timeout t)\<rparr>"
    if "route env t \<noteq> Unsupported" for i t log'
    using that by (simp add: runTest_Request defaultTimeout_eq effectiveTimeout_def)
  have "Request (results (runTests_state env cfg log) ! i) =
        (Config cfg ! i)\<lparr>Timeout :=
           (if Timeout (Config cfg ! i) = 0 then timeout env else Timeout (Config cfg ! i))\<rparr>"
    if lt: "i < length (Config cfg)" and rt: "route env (Config cfg ! i) \<noteq> Unsupported" for i
  proof -
    obtain log' where "runTests env cfg log ! i = fst (runTest env i (Config cfg ! i) log')"
      using runTests_nth [of env cfg log] lt by blast
    then show ?thesis
      using req [OF rt] by (simp add: runTests_def)
  qed
  then show ?thesis
    using cfg by simp
qed

text \<open>
  The TCP target configured with timeout 0 is echoed with timeout 10, and the HTTP
  target requested at \<open>/foo\<close> is echoed with the path \<open>foo\<close>.
\<close>

theorem echoed_request_snapshot_witness:
  "config (runTests_state demo_platform demo_config []) = demo_config \<and>
   Timeout (Request (results (runTests_state demo_platform demo_config []) ! 1)) = 10 \<and>
   Path (Request (results (runTests_state demo_platform demo_config []) ! 2)) = ''foo''"
proof -
  have len: "length (Config demo_config) = 3"
    by (simp add: demo_config_def)
  have t1: "Config demo_config ! 1 = demo_target ''Tcp'' ''h'' [] 0 False"
    and t2: "Config demo_config ! 2 = demo_target ''http'' ''h'' ''foo'' 5 True"
    by (simp_all add: demo_config_def)
  have r1: "route demo_platform (demo_target ''Tcp'' ''h'' [] 0 False) \<noteq> Unsupported"
    and r2: "route demo_platform (demo_target ''http'' ''h'' ''foo'' 5 True) \<noteq> Unsupported"
    by code_simp+
  have d: "timeout demo_platform = 10"
    by (simp add: demo_platform_def)
  have "1 < length (Config demo_config)" "2 < length (Config demo_config)"
    using len by simp_all
  with echoed_request_snapshot [of demo_platform demo_config "[]"] t1 t2 r1 r2
  have "config (runTests_state demo_platform demo_config []) = demo_config"
    and "Request (results (runTests_state demo_platform demo_config []) ! 1) =
        (demo_target ''Tcp'' ''h'' [] 0 False)\<lparr>Timeout :=
           (if Timeout (demo_target ''Tcp'' ''h'' [] 0 False) = 0 then timeout demo_platform
            else Timeout (demo_target ''Tcp'' ''h'' [] 0 False))\<rparr>"
    and "Path (Request (results (runTests_state demo_platform demo_config []) ! 2)) =
        Path (demo_target ''http'' ''h'' ''foo'' 5 True)"
    by metis+
  then show ?thesis
    using d by (simp add: demo_target_def)
qed

end
